theory Spec2Isabelle
  imports
    Complex_Main
    "HOL-Library.Char_ord"
    "HOL-Library.List_Lexorder"
    "HOL-Library.Product_Lexorder"
begin

section \<open>Python values\<close>

text \<open>
  The values the two scripts handle are the ones a decoded store document or a decoded JSON
  answer is made of: \<open>None\<close>, booleans, integers, floats, strings, lists and dictionaries with
  string keys. A float is not-a-number, an infinity (the flag is its sign bit) or a finite value,
  kept as the rational it denotes. A dictionary is an association list; a lookup finds the first
  binding of a key. A character is a code point below 256, and strings are ordered as Python
  orders them: code point by code point, a proper prefix first.
\<close>

datatype pyfloat = FNan | FInf bool | FFin rat

datatype pyval =
    PNone
  | PBool bool
  | PInt int
  | PFloat pyfloat
  | PStr string
  | PList "pyval list"
  | PDict "(string \<times> pyval) list"

datatype py_error = TypeError | ValueError | OverflowError | KeyError

text \<open>Truth value of an object, as \<open>if name:\<close> and \<open>a or b\<close> test it.\<close>

fun truthy :: "pyval \<Rightarrow> bool" where
  "truthy PNone = False"
| "truthy (PBool b) = b"
| "truthy (PInt n) = (n \<noteq> 0)"
| "truthy (PFloat f) = (f \<noteq> FFin 0)"
| "truthy (PStr s) = (s \<noteq> [])"
| "truthy (PList xs) = (xs \<noteq> [])"
| "truthy (PDict kvs) = (kvs \<noteq> [])"

text \<open>\<open>a or b\<close>: the left operand when it is true, the right one otherwise.\<close>

definition py_or :: "pyval \<Rightarrow> pyval \<Rightarrow> pyval" where
  "py_or a b = (if truthy a then a else b)"

text \<open>\<open>d.get(k)\<close>: the value bound to \<open>k\<close>, \<open>None\<close> when there is none.\<close>

definition dict_get :: "(string \<times> pyval) list \<Rightarrow> string \<Rightarrow> pyval" where
  "dict_get d k = (case map_of d k of None \<Rightarrow> PNone | Some v \<Rightarrow> v)"

text \<open>
  \<open>str.isspace\<close> on one character: tab, line feed, vertical tab, form feed, carriage return,
  the four separators 28 to 31, the space, and in the upper half next-line (133) and the
  no-break space (160).
\<close>

definition py_isspace :: "char \<Rightarrow> bool" where
  "py_isspace c = (of_char c \<in> {9, 10, 11, 12, 13, 28, 29, 30, 31, 32, 133, 160 :: nat})"

text \<open>\<open>s.strip()\<close>: the string without its leading and trailing white space.\<close>

definition strip :: "string \<Rightarrow> string" where
  "strip s = rev (dropWhile py_isspace (rev (dropWhile py_isspace s)))"

text \<open>
  \<open>str(v)\<close>. A string is its own text. The text of any other object is the runtime's business
  (the shortest round-trip digits of a float, the quoting inside a list); the model takes that
  part as the parameter \<open>other\<close>, so that what is proved holds whatever text the runtime gives.
\<close>

definition py_str :: "(pyval \<Rightarrow> string) \<Rightarrow> pyval \<Rightarrow> string" where
  "py_str other v = (case v of PStr s \<Rightarrow> s | _ \<Rightarrow> other v)"

text \<open>
  \<open>list(dict.fromkeys(xs))\<close>: the elements of \<open>xs\<close> in the order of their first occurrence,
  each once. The accumulator holds the keys inserted so far.
\<close>

fun fromkeys_acc :: "'a list \<Rightarrow> 'a list \<Rightarrow> 'a list" where
  "fromkeys_acc seen [] = seen"
| "fromkeys_acc seen (x # xs) =
     (if x \<in> set seen then fromkeys_acc seen xs else fromkeys_acc (seen @ [x]) xs)"

definition dict_fromkeys :: "'a list \<Rightarrow> 'a list" where
  "dict_fromkeys xs = fromkeys_acc [] xs"

section \<open>The provider normalizer (pandas\_ej.py)\<close>

text \<open>
  One turn of the loop over the elements, which \<open>providers_to_list\<close> has twice with the same
  body: a string is appended stripped; a dictionary gives
  \<open>name = x.get("provider_name") or x.get("name")\<close> and, when \<open>name\<close> is true,
  \<open>str(name).strip()\<close> is appended; any other element appends nothing.
\<close>

fun element_names :: "(pyval \<Rightarrow> string) \<Rightarrow> pyval \<Rightarrow> string list" where
  "element_names other (PStr s) = [strip s]"
| "element_names other (PDict d) =
     (let name = py_or (dict_get d ''provider_name'') (dict_get d ''name'')
      in if truthy name then [strip (py_str other name)] else [])"
| "element_names other _ = []"

text \<open>The loop: the list \<open>names\<close> after all elements of \<open>arr\<close> have been visited.\<close>

definition loop_names :: "(pyval \<Rightarrow> string) \<Rightarrow> pyval list \<Rightarrow> string list" where
  "loop_names other arr = concat (map (element_names other) arr)"

text \<open>
  The part of \<open>names\<close> one offer kind adds in the dictionary case:
  \<open>arr = pregion.get(kind) or []\<close>, visited only when it is a list.
\<close>

definition kind_names :: "(pyval \<Rightarrow> string) \<Rightarrow> (string \<times> pyval) list \<Rightarrow> string \<Rightarrow> string list" where
  "kind_names other d kind =
     (case py_or (dict_get d kind) (PList []) of
        PList arr \<Rightarrow> loop_names other arr
      | _ \<Rightarrow> [])"

text \<open>
  The list \<open>names\<close> as it stands just before the \<open>return sorted(...)\<close> of either case;
  for an input that reaches neither case there are no names.
\<close>

fun names_of :: "(pyval \<Rightarrow> string) \<Rightarrow> pyval \<Rightarrow> string list" where
  "names_of other (PList xs) = loop_names other xs"
| "names_of other (PDict d) = concat (map (kind_names other d) [''flatrate'', ''rent'', ''buy''])"
| "names_of other _ = []"

text \<open>\<open>sorted(list(dict.fromkeys([n for n in names if n])))\<close>\<close>

definition finish_names :: "string list \<Rightarrow> string list" where
  "finish_names ns = sort (dict_fromkeys (filter (\<lambda>n. n \<noteq> []) ns))"

fun providers_to_list :: "(pyval \<Rightarrow> string) \<Rightarrow> pyval \<Rightarrow> string list" where
  "providers_to_list other PNone = []"
| "providers_to_list other (PList xs) = finish_names (loop_names other xs)"
| "providers_to_list other (PDict d) =
     finish_names (concat (map (kind_names other d) [''flatrate'', ''rent'', ''buy'']))"
| "providers_to_list other _ = []"

section \<open>Sentinel coercion (pandas\_ej.py and sync\_fight\_club.py)\<close>

text \<open>The missing-value token of the catalog, written \<open>"\\N"\<close> in both scripts: a backslash and \<open>N\<close>.\<close>

definition sentinel :: string where
  "sentinel = [CHR 0x5C, CHR ''N'']"

text \<open>
  \<open>v in (None, "", "\\N")\<close>. Membership compares \<open>v\<close> with each member by \<open>==\<close>; against
  \<open>None\<close> and against a string, \<open>==\<close> on the values above is plain equality and gives a
  boolean. The result is a sum all the same, since the two scripts differ in what they do
  should the test raise.
\<close>

definition in_sentinels :: "pyval \<Rightarrow> py_error + bool" where
  "in_sentinels v = Inr (v \<in> set [PNone, PStr [], PStr sentinel])"

text \<open>
  \<open>int(s)\<close> on a string, base ten: white space around the number is skipped, one sign may
  lead, and the digits may be grouped by single underscores, each between two digits. The
  white space \<open>int\<close> skips is tab, line feed, vertical tab, form feed, carriage return and
  the space, and of the upper half next-line and the no-break space; unlike \<open>strip\<close> it
  does not skip the separators 28 to 31.
  \<open>digits_acc n prev cs\<close> reads \<open>cs\<close> with \<open>n\<close> the value so far and \<open>prev\<close> telling
  whether the last character read was a digit; \<open>None\<close> is \<open>ValueError\<close>. (The runtime's cap
  on the number of digits it converts, 4300 by default where it exists, is left out.)
\<close>

definition int_isspace :: "char \<Rightarrow> bool" where
  "int_isspace c = (of_char c \<in> {9, 10, 11, 12, 13, 32, 133, 160 :: nat})"

definition digit_val :: "char \<Rightarrow> nat option" where
  "digit_val c =
     (let k = of_char c :: nat in if 48 \<le> k \<and> k \<le> 57 then Some (k - 48) else None)"

fun digits_acc :: "nat \<Rightarrow> bool \<Rightarrow> string \<Rightarrow> nat option" where
  "digits_acc n prev [] = (if prev then Some n else None)"
| "digits_acc n prev (c # cs) =
     (if c = CHR ''_'' then (if prev then digits_acc n False cs else None)
      else case digit_val c of
             None \<Rightarrow> None
           | Some d \<Rightarrow> digits_acc (10 * n + d) True cs)"

definition int_of_str :: "string \<Rightarrow> int option" where
  "int_of_str s =
     (case rev (dropWhile int_isspace (rev (dropWhile int_isspace s))) of
        [] \<Rightarrow> None
      | c # cs \<Rightarrow>
          if c = CHR ''+'' then map_option int (digits_acc 0 False cs)
          else if c = CHR ''-'' then map_option (\<lambda>n. - int n) (digits_acc 0 False cs)
          else map_option int (digits_acc 0 False (c # cs)))"

text \<open>\<open>int(x)\<close> on a float cuts the fraction off, towards zero.\<close>

definition trunc :: "rat \<Rightarrow> int" where
  "trunc q = (if q < 0 then - \<lfloor>- q\<rfloor> else \<lfloor>q\<rfloor>)"

text \<open>
  \<open>int(v)\<close>: \<open>TypeError\<close> for \<open>None\<close>, a list or a dictionary, \<open>ValueError\<close> for
  not-a-number and for a string that is no number, \<open>OverflowError\<close> for an infinity.
\<close>

fun py_int :: "pyval \<Rightarrow> py_error + int" where
  "py_int PNone = Inl TypeError"
| "py_int (PBool b) = Inr (if b then 1 else 0)"
| "py_int (PInt n) = Inr n"
| "py_int (PFloat FNan) = Inl ValueError"
| "py_int (PFloat (FInf neg)) = Inl OverflowError"
| "py_int (PFloat (FFin q)) = Inr (trunc q)"
| "py_int (PStr s) = (case int_of_str s of None \<Rightarrow> Inl ValueError | Some n \<Rightarrow> Inr n)"
| "py_int (PList xs) = Inl TypeError"
| "py_int (PDict kvs) = Inl TypeError"

text \<open>
  \<open>coerce_year\<close> (pandas\_ej.py) tests the sentinels before its \<open>try\<close>: an error of the test
  would reach the caller. Only \<open>int(v)\<close> is guarded.
\<close>

definition coerce_year :: "pyval \<Rightarrow> py_error + int option" where
  "coerce_year v =
     (case in_sentinels v of
        Inl e \<Rightarrow> Inl e
      | Inr hit \<Rightarrow>
          if hit then Inr None
          else (case py_int v of Inl e \<Rightarrow> Inr None | Inr n \<Rightarrow> Inr (Some n)))"


section \<open>Genre aggregation (pandas\_ej.py)\<close>

text \<open>
  The frames of \<open>avg_rating_by_genre_last5\<close> are lists of rows, one record type per set of
  columns. A title document arrives with the three projected fields; \<open>genres\<close> is a string
  or missing (\<open>None\<close>, which the frame shows as NaN). A rating document has its key and a
  rating, missing or a number; numbers are kept exact, as rationals. The merge adds the column
  \<open>averageRating\<close>, the explosion the column \<open>genres_list\<close>, whose cell is one tag or NaN.
\<close>

record title_row =
  tconst :: string
  startYear :: pyval
  genres :: "string option"

record rated_row = title_row +
  averageRating :: "rat option"

record genre_row = rated_row +
  genres_list :: "string option"



text \<open>
  \<open>df_t["startYear"] = df_t["startYear"].apply(coerce_year)\<close>: the cells in order; an error
  of \<open>coerce_year\<close> on a cell would end the function.
\<close>

fun apply_coerce_year :: "title_row list \<Rightarrow> py_error + title_row list" where
  "apply_coerce_year [] = Inr []"
| "apply_coerce_year (t # ts) =
     (case coerce_year (startYear t) of
        Inl e \<Rightarrow> Inl e
      | Inr y \<Rightarrow>
          (case apply_coerce_year ts of
             Inl e \<Rightarrow> Inl e
           | Inr rest \<Rightarrow>
               Inr (t\<lparr>startYear := (case y of None \<Rightarrow> PNone | Some n \<Rightarrow> PInt n)\<rparr> # rest)))"




text \<open>\<open>fillna("")\<close> on one cell of \<open>genres\<close>.\<close>

definition fillna :: "string option \<Rightarrow> string" where
  "fillna g = (case g of None \<Rightarrow> [] | Some s \<Rightarrow> s)"

text \<open>\<open>s.split(",")\<close>: the pieces between the separators; one more piece than separators.\<close>

fun split_on :: "char \<Rightarrow> string \<Rightarrow> string list" where
  "split_on sep [] = [[]]"
| "split_on sep (c # cs) =
     (if c = sep then [] # split_on sep cs
      else (case split_on sep cs of [] \<Rightarrow> [[c]] | w # ws \<Rightarrow> (c # w) # ws))"

text \<open>
  The function applied to each cell of \<open>genres\<close>:
  \<open>[] if s in ("", "\\N") else [g.strip() for g in s.split(",") if g.strip()]\<close>
\<close>

definition split_genres :: "string \<Rightarrow> string list" where
  "split_genres s =
     (if s = [] \<or> s = sentinel then []
      else map strip (filter (\<lambda>g. strip g \<noteq> []) (split_on CHR '','' s)))"

definition with_genre :: "rated_row \<Rightarrow> string option \<Rightarrow> genre_row" where
  "with_genre r g =
     \<lparr>tconst = tconst r, startYear = startYear r, genres = Some (fillna (genres r)),
      averageRating = averageRating r, genres_list = g\<rparr>"

text \<open>
  The column \<open>genres\<close> filled, the column \<open>genres_list\<close> computed from it, and
  \<open>df.explode("genres_list")\<close>: a row with the list \<open>[g1, ..., gn]\<close> becomes \<open>n\<close> rows, one
  per element in order; a row with the empty list becomes one row whose cell is NaN.
\<close>

definition explode_genres :: "rated_row list \<Rightarrow> genre_row list" where
  "explode_genres df =
     concat (map (\<lambda>r.
       case split_genres (fillna (genres r)) of
         [] \<Rightarrow> [with_genre r None]
       | gs \<Rightarrow> map (\<lambda>g. with_genre r (Some g)) gs) df)"

text \<open>\<open>df[(df["genres_list"].notna()) & (df["genres_list"] != "")]\<close>\<close>

definition has_genre :: "genre_row \<Rightarrow> bool" where
  "has_genre r = (case genres_list r of None \<Rightarrow> False | Some g \<Rightarrow> g \<noteq> [])"











section \<open>Enrichment (sync\_fight\_club.py)\<close>

text \<open>
  \<open>for x in v\<close>: the elements of a list, the characters of a string, the keys of a
  dictionary; any other value is not iterable.
\<close>

fun py_iter :: "pyval \<Rightarrow> py_error + pyval list" where
  "py_iter (PList xs) = Inr xs"
| "py_iter (PStr s) = Inr (map (\<lambda>c. PStr [c]) s)"
| "py_iter (PDict d) = Inr (map (\<lambda>kv. PStr (fst kv)) d)"
| "py_iter v = Inl TypeError"

text \<open>\<open>d.get(k, default)\<close>: the default stands in for a missing key only.\<close>

definition dict_get_default :: "(string \<times> pyval) list \<Rightarrow> string \<Rightarrow> pyval \<Rightarrow> pyval" where
  "dict_get_default d k dflt = (case map_of d k of None \<Rightarrow> dflt | Some v \<Rightarrow> v)"

text \<open>
  What one element of a raw offer list gives to the comprehension of \<open>names\<close>: its
  \<open>provider_name\<close> when the element is a dictionary and that name is true, nothing otherwise.
\<close>

fun named :: "pyval \<Rightarrow> pyval list" where
  "named (PDict d) =
     (if truthy (dict_get d ''provider_name'') then [dict_get d ''provider_name''] else [])"
| "named v = []"

text \<open>
  The inner function \<open>names(kind)\<close> of \<open>format_providers_entry\<close>:
  \<open>[x.get("provider_name") for x in p.get(kind, []) if isinstance(x, dict) and
  x.get("provider_name")]\<close>
\<close>

definition names :: "(string \<times> pyval) list \<Rightarrow> string \<Rightarrow> py_error + pyval list" where
  "names p kind =
     (case py_iter (dict_get_default p kind (PList [])) of
        Inl e \<Rightarrow> Inl e
      | Inr xs \<Rightarrow> Inr (concat (map named xs)))"

text \<open>
  \<open>format_providers_entry\<close>. The first argument is the module's \<open>TMDB_REGION\<close>. The three
  lists are built in the order of the dictionary display; the first error ends the call.
\<close>

definition format_providers_entry ::
    "string \<Rightarrow> (string \<times> pyval) list \<Rightarrow> py_error + (string \<times> pyval) list" where
  "format_providers_entry tmdb_region p =
     (case names p ''flatrate'' of
        Inl e \<Rightarrow> Inl e
      | Inr fl \<Rightarrow>
          (case names p ''rent'' of
             Inl e \<Rightarrow> Inl e
           | Inr re \<Rightarrow>
               (case names p ''buy'' of
                  Inl e \<Rightarrow> Inl e
                | Inr bu \<Rightarrow>
                    Inr [(''region'', PStr tmdb_region),
                         (''link'', dict_get p ''link''),
                         (''flatrate'', PList fl),
                         (''rent'', PList re),
                         (''buy'', PList bu)])))"

text \<open>
  A catalog record, as far as the writer touches it: its key \<open>_id\<close>, the field \<open>tmdb.id\<close>
  and, under \<open>tmdb.providers\<close>, one entry per region. The record type is open: whatever else
  a document holds is its \<open>more\<close> part, which no update reads or writes.
\<close>

record movie_doc =
  doc_id :: nat
  tmdb_id :: "int option"
  tmdb_providers :: "string \<rightharpoonup> (string \<times> pyval) list"

text \<open>\<open>update_one\<close> changes the first document the filter selects, \<open>update_many\<close> all of them.\<close>

fun update_one :: "('d \<Rightarrow> bool) \<Rightarrow> ('d \<Rightarrow> 'd) \<Rightarrow> 'd list \<Rightarrow> 'd list" where
  "update_one sel f [] = []"
| "update_one sel f (d # ds) = (if sel d then f d # ds else d # update_one sel f ds)"

definition update_many :: "('d \<Rightarrow> bool) \<Rightarrow> ('d \<Rightarrow> 'd) \<Rightarrow> 'd list \<Rightarrow> 'd list" where
  "update_many sel f ds = map (\<lambda>d. if sel d then f d else d) ds"

definition update_movie_with_tmdb ::
    "string \<Rightarrow> 'a movie_doc_scheme list \<Rightarrow> nat \<Rightarrow> int \<Rightarrow> (string \<times> pyval) list
      \<Rightarrow> 'a movie_doc_scheme list" where
  "update_movie_with_tmdb tmdb_region collection mongo_id tid providers =
     update_one (\<lambda>d. doc_id d = mongo_id)
       (\<lambda>d. d\<lparr>tmdb_id := Some tid,
              tmdb_providers := (tmdb_providers d)(tmdb_region \<mapsto> providers)\<rparr>)
       collection"

definition update_by_tmdb_id ::
    "string \<Rightarrow> 'a movie_doc_scheme list \<Rightarrow> int \<Rightarrow> (string \<times> pyval) list
      \<Rightarrow> 'a movie_doc_scheme list" where
  "update_by_tmdb_id tmdb_region collection tid providers =
     update_many (\<lambda>d. tmdb_id d = Some tid)
       (\<lambda>d. d\<lparr>tmdb_providers := (tmdb_providers d)(tmdb_region \<mapsto> providers)\<rparr>)
       collection"

text \<open>
  The canonical form of one kind list: every element a string, the strings ascending and
  without a repeat.
\<close>

fun str_of :: "pyval \<Rightarrow> string option" where
  "str_of (PStr s) = Some s"
| "str_of v = None"

definition canonical :: "pyval \<Rightarrow> bool" where
  "canonical v =
     (case v of
        PList xs \<Rightarrow>
          (case those (map str_of xs) of
             None \<Rightarrow> False
           | Some ns \<Rightarrow> sorted ns \<and> distinct ns)
      | _ \<Rightarrow> False)"

text \<open>An answer of the metadata service with three subscription offers, and a catalog of one record.\<close>

definition raw_offers :: "(string \<times> pyval) list" where
  "raw_offers =
     [(''link'', PStr ''https://www.themoviedb.org/movie/550/watch''),
      (''flatrate'',
         PList [PDict [(''provider_id'', PInt 8), (''provider_name'', PStr ''Netflix'')],
                PDict [(''provider_id'', PInt 2), (''provider_name'', PStr ''Apple TV'')],
                PDict [(''provider_id'', PInt 8), (''provider_name'', PStr ''Netflix'')]])]"

definition stored_offers :: "(string \<times> pyval) list" where
  "stored_offers =
     [(''region'', PStr ''US''),
      (''link'', PStr ''https://www.themoviedb.org/movie/550/watch''),
      (''flatrate'', PList [PStr ''Netflix'', PStr ''Apple TV'', PStr ''Netflix'']),
      (''rent'', PList []),
      (''buy'', PList [])]"

definition fight_club :: movie_doc where
  "fight_club = \<lparr>doc_id = 1, tmdb_id = None, tmdb_providers = Map.empty\<rparr>"

section \<open>The title lookup (both scripts)\<close>

text \<open>
  \<open>re.escape\<close>, as it is since Python 3.7: a backslash before each of the characters
  \<open>( ) [ ] { } ? * + - | ^ $ \ . & ~ #\<close>, the space, and tab, line feed, vertical tab,
  form feed and carriage return; every other character as it is.
\<close>

definition re_special :: "char \<Rightarrow> bool" where
  "re_special c =
     (c \<in> set ''()[]{}?*+-|^$.&~# '' \<or> c = CHR 0x5C \<or> of_char c \<in> {9, 10, 11, 12, 13 :: nat})"

definition re_escape :: "string \<Rightarrow> string" where
  "re_escape s = concat (map (\<lambda>c. if re_special c then [CHR 0x5C, c] else [c]) s)"

text \<open>
  The filter document both lookups hand to \<open>find_one\<close>: the type, the regular expression for
  \<open>primaryTitle\<close> with its options, and the year.
\<close>

record title_query =
  q_titleType :: string
  q_regex :: string
  q_options :: string
  q_startYear :: int

text \<open>\<open>find_film\<close> (sync\_fight\_club.py) escapes the title before it anchors it.\<close>

definition find_film_query :: "string \<Rightarrow> int \<Rightarrow> title_query" where
  "find_film_query title year =
     \<lparr>q_titleType = ''movie'', q_regex = ''^'' @ re_escape title @ ''$'',
      q_options = ''i'', q_startYear = year\<rparr>"

text \<open>\<open>show_fight_club_row\<close> (pandas\_ej.py) anchors the title as it is given.\<close>

definition show_fight_club_row_query :: "string \<Rightarrow> int \<Rightarrow> title_query" where
  "show_fight_club_row_query title year =
     \<lparr>q_titleType = ''movie'', q_regex = ''^'' @ title @ ''$'',
      q_options = ''i'', q_startYear = year\<rparr>"

section \<open>Example inputs\<close>

text \<open>
  The examples below hold no name that is not a string, so the text of other objects is never
  asked for; this function stands in for it there.
\<close>

definition no_other :: "pyval \<Rightarrow> string" where
  "no_other v = []"

text \<open>The offers of one region as the metadata service and the store mix them.\<close>

definition us_offers :: pyval where
  "us_offers =
     PDict [(''flatrate'', PList [PDict [(''provider_name'', PStr ''Netflix'')]]),
            (''rent'', PList [PStr ''Apple TV'']),
            (''buy'', PList [])]"

text \<open>A rated title whose genre string names one genre twice, and one with two genres.\<close>

definition twice_drama :: rated_row where
  "twice_drama =
     \<lparr>tconst = ''tt0000001'', startYear = PInt 2024, genres = Some ''Drama,Drama'',
      averageRating = Some 8\<rparr>"

definition drama_thriller :: rated_row where
  "drama_thriller =
     \<lparr>tconst = ''tt0000002'', startYear = PInt 2024, genres = Some ''Drama, Thriller'',
      averageRating = Some 8\<rparr>"






section \<open>Properties of the helpers\<close>

lemma set_fromkeys_acc: "set (fromkeys_acc seen xs) = set seen \<union> set xs"
  by (induction xs arbitrary: seen) auto

lemma distinct_fromkeys_acc: "distinct seen \<Longrightarrow> distinct (fromkeys_acc seen xs)"
  by (induction xs arbitrary: seen) auto

lemma fromkeys_acc_distinct: "distinct (seen @ xs) \<Longrightarrow> fromkeys_acc seen xs = seen @ xs"
  by (induction xs arbitrary: seen) auto

lemma set_dict_fromkeys: "set (dict_fromkeys xs) = set xs"
  by (simp add: dict_fromkeys_def set_fromkeys_acc)

lemma distinct_dict_fromkeys: "distinct (dict_fromkeys xs)"
  by (simp add: dict_fromkeys_def distinct_fromkeys_acc)

lemma dict_fromkeys_distinct: "distinct xs \<Longrightarrow> dict_fromkeys xs = xs"
  by (simp add: dict_fromkeys_def fromkeys_acc_distinct)

lemma set_finish_names: "set (finish_names ns) = {n \<in> set ns. n \<noteq> []}"
  by (auto simp: finish_names_def set_dict_fromkeys)

lemma sorted_finish_names: "sorted (finish_names ns)"
  by (simp add: finish_names_def)

lemma distinct_finish_names: "distinct (finish_names ns)"
  by (simp add: finish_names_def distinct_dict_fromkeys)

lemma finish_names_fixed:
  assumes "sorted ns" "distinct ns" "[] \<notin> set ns"
  shows "finish_names ns = ns"
proof -
  from assms(3) have "filter (\<lambda>n. n \<noteq> []) ns = ns"
    by (induction ns) auto
  with assms(1,2) show ?thesis
    by (simp add: finish_names_def dict_fromkeys_distinct sort_key_id_if_sorted)
qed

text \<open>A stripped string that is not empty ends in a character that is no white space.\<close>

lemma strip_last: "strip s \<noteq> [] \<Longrightarrow> \<not> py_isspace (last (strip s))"
  unfolding strip_def
  by (metis hd_dropWhile last_rev rev_is_Nil_conv)

lemma strip_not_blank: "strip s \<noteq> [] \<Longrightarrow> \<not> (\<forall>c \<in> set (strip s). py_isspace c)"
  using strip_last[of s] last_in_set[of "strip s"] by blast

text \<open>Cutting the tail of a list leaves a head that does not satisfy \<open>P\<close> in place.\<close>

lemma dropWhile_rev_front:
  assumes "t \<noteq> []" "\<not> P (hd t)"
  shows "dropWhile P (rev (dropWhile P (rev t))) = rev (dropWhile P (rev t))"
proof (cases "rev (dropWhile P (rev t))")
  case Nil
  show ?thesis unfolding Nil by simp
next
  case (Cons a u)
  from assms obtain b t' where t: "t = b # t'" and b: "\<not> P b" by (cases t) auto
  have "dropWhile P (rev t' @ [b]) = dropWhile P (rev t') @ [b]"
    using b by (simp add: dropWhile_append3)
  then have "rev (dropWhile P (rev t)) = b # rev (dropWhile P (rev t'))"
    by (simp add: t)
  with b show ?thesis by simp
qed

lemma strip_strip: "strip (strip s) = strip s"
proof (cases "dropWhile py_isspace s = []")
  case True
  show ?thesis unfolding strip_def True by simp
next
  case False
  let ?t = "dropWhile py_isspace s"
  let ?u = "rev (dropWhile py_isspace (rev ?t))"
  have h: "\<not> py_isspace (hd ?t)" using False by (rule hd_dropWhile)
  have d: "dropWhile py_isspace ?u = ?u"
    using dropWhile_rev_front[of ?t py_isspace] False h by blast
  have "dropWhile py_isspace (rev ?u) = rev ?u"
    by (simp add: dropWhile_idem)
  with d show ?thesis by (simp add: strip_def)
qed

section \<open>Properties of the provider normalizer\<close>

lemma element_names_stripped: "n \<in> set (element_names other x) \<Longrightarrow> \<exists>s. n = strip s"
  by (cases x) (auto simp: Let_def split: if_splits)

lemma loop_names_stripped: "n \<in> set (loop_names other xs) \<Longrightarrow> \<exists>s. n = strip s"
  by (auto simp: loop_names_def dest: element_names_stripped)

lemma kind_names_stripped: "n \<in> set (kind_names other d k) \<Longrightarrow> \<exists>s. n = strip s"
  by (auto simp: kind_names_def split: pyval.splits dest: loop_names_stripped)

lemma names_of_stripped: "n \<in> set (names_of other x) \<Longrightarrow> \<exists>s. n = strip s"
  by (cases x) (auto dest: loop_names_stripped kind_names_stripped)

text \<open>Whatever the input, the result is the list \<open>names\<close> filtered, deduplicated and sorted.\<close>

lemma providers_to_list_names: "providers_to_list other x = finish_names (names_of other x)"
  by (cases x) (simp_all add: finish_names_def dict_fromkeys_def)

lemma providers_to_list_member:
  assumes "n \<in> set (providers_to_list other x)"
  shows "n \<noteq> [] \<and> strip n = n"
proof -
  from assms have m: "n \<in> set (names_of other x)" and ne: "n \<noteq> []"
    by (simp_all add: providers_to_list_names set_finish_names)
  from names_of_stripped[OF m] obtain t where "n = strip t" ..
  with ne show ?thesis by (simp add: strip_strip)
qed

lemma loop_names_strings: "loop_names other (map PStr ns) = map strip ns"
  by (induction ns) (simp_all add: loop_names_def)

lemma us_offers_result: "providers_to_list no_other us_offers = [''Apple TV'', ''Netflix'']"
  by (simp add: us_offers_def finish_names_def kind_names_def loop_names_def dict_get_def
      py_or_def dict_fromkeys_def strip_def py_isspace_def py_str_def)



text \<open>
  C6. For every input the returned list is sorted ascending in the order of strings (code
  point by code point, so a capital comes before a small letter), holds no string twice, and
  holds exactly the strings of \<open>names\<close> that are not empty: each distinct name once, compared
  as it is spelled. No returned name is empty or made of white space only.
\<close>

theorem providers_to_list_sorted_unique:
  "sorted (providers_to_list other x)
   \<and> distinct (providers_to_list other x)
   \<and> set (providers_to_list other x) = {n \<in> set (names_of other x). n \<noteq> []}
   \<and> (\<forall>n \<in> set (providers_to_list other x). \<not> (\<forall>c \<in> set n. py_isspace c))"
proof -
  let ?out = "providers_to_list other x"
  have eq: "?out = finish_names (names_of other x)" by (rule providers_to_list_names)
  have s: "set ?out = {n \<in> set (names_of other x). n \<noteq> []}"
    by (simp add: eq set_finish_names)
  have "\<not> (\<forall>c \<in> set n. py_isspace c)" if "n \<in> set ?out" for n
  proof -
    from providers_to_list_member[OF that] have "n \<noteq> []" "strip n = n" by simp_all
    with strip_not_blank[of n] show ?thesis by simp
  qed
  with s show ?thesis by (simp add: eq sorted_finish_names distinct_finish_names)
qed

theorem providers_to_list_sorted_unique_witness:
  "''Netflix'' \<in> set (providers_to_list no_other us_offers)
   \<and> \<not> (\<forall>c \<in> set ''Netflix''. py_isspace c)
   \<and> sorted (providers_to_list no_other us_offers)"
proof -
  have m: "''Netflix'' \<in> set (providers_to_list no_other us_offers)"
    by (simp add: us_offers_result)
  from providers_to_list_sorted_unique[of no_other us_offers] m show ?thesis by blast
qed

text \<open>
  C7. Normalizing the list the normalizer returned gives that list again, for every input.
\<close>

theorem providers_to_list_idempotent:
  "providers_to_list other (PList (map PStr (providers_to_list other x)))
     = providers_to_list other x"
proof -
  let ?ys = "providers_to_list other x"
  have "map strip ?ys = ?ys"
    using providers_to_list_member[of _ other x] by (simp add: map_idI)
  then have l: "loop_names other (map PStr ?ys) = ?ys"
    by (simp add: loop_names_strings)
  have "[] \<notin> set ?ys" using providers_to_list_member[of "[]" other x] by blast
  moreover have "sorted ?ys" "distinct ?ys"
    by (simp_all add: providers_to_list_names sorted_finish_names distinct_finish_names)
  ultimately have "finish_names ?ys = ?ys" by (simp add: finish_names_fixed)
  with l show ?thesis by simp
qed

section \<open>Properties of the sentinel coercion\<close>




section \<open>Properties of the genre aggregation\<close>

lemma coerce_year_returns: "\<exists>r. coerce_year v = Inr r"
  by (simp add: coerce_year_def in_sentinels_def split: sum.splits)

lemma apply_coerce_year_returns: "\<exists>df_t. apply_coerce_year titles = Inr df_t"
proof (induction titles)
  case Nil
  show ?case by simp
next
  case (Cons t ts)
  then obtain rest where "apply_coerce_year ts = Inr rest" ..
  moreover obtain y where "coerce_year (startYear t) = Inr y"
    using coerce_year_returns by blast
  ultimately show ?case by simp
qed

lemma split_genres_tags: "g \<in> set (split_genres s) \<Longrightarrow> g \<noteq> [] \<and> strip g = g"
  by (auto simp: split_genres_def strip_strip split: if_splits)


lemma explode_genres_concat: "explode_genres df = concat (map (\<lambda>r. explode_genres [r]) df)"
  by (induction df) (simp_all add: explode_genres_def)

text \<open>The rows one row of the joined frame leaves after the filter on the genre cell.\<close>

lemma title_rows:
  "filter has_genre (explode_genres [r])
     = map (\<lambda>g. with_genre r (Some g)) (split_genres (fillna (genres r)))"
proof (cases "split_genres (fillna (genres r))")
  case Nil
  then show ?thesis by (simp add: explode_genres_def has_genre_def with_genre_def)
next
  case (Cons g gs)
  have "has_genre (with_genre r (Some h))" if "h \<in> set (split_genres (fillna (genres r)))" for h
    using split_genres_tags[OF that] by (simp add: has_genre_def with_genre_def)
  then have "filter has_genre (map (\<lambda>g. with_genre r (Some g)) (split_genres (fillna (genres r))))
      = map (\<lambda>g. with_genre r (Some g)) (split_genres (fillna (genres r)))"
    by (simp add: filter_id_conv)
  then show ?thesis using Cons by (simp add: explode_genres_def)
qed

















text \<open>
  C2, as amended. The genre string of a title is split into the list of its trimmed tags that
  are not empty, in their order and with a repeated tag kept. A row of the joined frame whose
  list has N entries leaves exactly N rows behind the filter on the genre cell, one per entry
  and in that order, each with the rating and the key of the title; with no tag it leaves
  none. The frame is the concatenation of what its rows leave.
\<close>

theorem genre_rows_per_tag:
  "filter has_genre (explode_genres df)
     = concat (map (\<lambda>r. filter has_genre (explode_genres [r])) df)
   \<and> map genres_list (filter has_genre (explode_genres [r]))
       = map Some (split_genres (fillna (genres r)))
   \<and> length (filter has_genre (explode_genres [r])) = length (split_genres (fillna (genres r)))
   \<and> (\<forall>x \<in> set (filter has_genre (explode_genres [r])).
         averageRating x = averageRating r \<and> tconst x = tconst r)
   \<and> (\<forall>g \<in> set (split_genres (fillna (genres r))). g \<noteq> [] \<and> strip g = g)"
proof -
  have a: "filter has_genre (explode_genres df)
             = concat (map (\<lambda>r. filter has_genre (explode_genres [r])) df)"
    by (subst explode_genres_concat) (simp add: filter_concat comp_def)
  have b: "map genres_list (filter has_genre (explode_genres [r]))
             = map Some (split_genres (fillna (genres r)))"
    by (simp add: title_rows with_genre_def comp_def)
  have c: "\<forall>x \<in> set (filter has_genre (explode_genres [r])).
             averageRating x = averageRating r \<and> tconst x = tconst r"
    unfolding title_rows by (auto simp: with_genre_def)
  have d: "length (filter has_genre (explode_genres [r]))
             = length (split_genres (fillna (genres r)))"
    by (simp add: title_rows)
  from a b c d split_genres_tags show ?thesis by blast
qed

theorem genre_rows_per_tag_witness:
  "with_genre drama_thriller (Some ''Thriller'') \<in> set (filter has_genre (explode_genres [drama_thriller]))
   \<and> averageRating (with_genre drama_thriller (Some ''Thriller'')) = averageRating drama_thriller
   \<and> ''Thriller'' \<in> set (split_genres (fillna (genres drama_thriller)))
   \<and> strip ''Thriller'' = ''Thriller''"
proof -
  have s: "split_genres (fillna (genres drama_thriller)) = [''Drama'', ''Thriller'']"
    by (simp add: drama_thriller_def split_genres_def fillna_def sentinel_def strip_def
        py_isspace_def)
  have m: "with_genre drama_thriller (Some ''Thriller'')
             \<in> set (filter has_genre (explode_genres [drama_thriller]))"
    by (simp add: title_rows s)
  have t: "''Thriller'' \<in> set (split_genres (fillna (genres drama_thriller)))"
    by (simp add: s)
  from genre_rows_per_tag[of "[]" drama_thriller] m t show ?thesis by blast
qed

text \<open>
  C2 as it is stated fails where a genre string repeats a tag: the string Drama,Drama has one
  distinct tag, and the title leaves two rows.
\<close>

theorem repeated_tag_rows:
  "length (filter has_genre (explode_genres [twice_drama]))
     \<noteq> card (set (split_genres (fillna (genres twice_drama))))"
  by (simp add: twice_drama_def explode_genres_def has_genre_def with_genre_def split_genres_def
      fillna_def sentinel_def strip_def py_isspace_def)





section \<open>Properties of the enrichment\<close>

lemma update_one_cases:
  "d' \<in> set (update_one sel f ds) \<Longrightarrow> d' \<in> set ds \<or> (\<exists>d \<in> set ds. sel d \<and> d' = f d)"
  by (induction ds) (auto split: if_splits)

lemma update_many_cases:
  "d' \<in> set (update_many sel f ds) \<Longrightarrow> d' \<in> set ds \<or> (\<exists>d \<in> set ds. sel d \<and> d' = f d)"
  by (auto simp: update_many_def split: if_splits)

lemma names_result:
  assumes "names p kind = Inr ns"
  shows "\<exists>xs. py_iter (dict_get_default p kind (PList [])) = Inr xs \<and> ns = concat (map named xs)"
  using assms by (auto simp: names_def split: sum.splits)

lemma format_providers_entry_lists:
  assumes "format_providers_entry tmdb_region p = Inr e"
    and "kind \<in> set [''flatrate'', ''rent'', ''buy'']"
  shows "\<exists>xs. py_iter (dict_get_default p kind (PList [])) = Inr xs
          \<and> dict_get e kind = PList (concat (map named xs))"
proof -
  from assms(1) obtain fl re bu where
    n: "names p ''flatrate'' = Inr fl" "names p ''rent'' = Inr re" "names p ''buy'' = Inr bu"
    and e: "e = [(''region'', PStr tmdb_region), (''link'', dict_get p ''link''),
                 (''flatrate'', PList fl), (''rent'', PList re), (''buy'', PList bu)]"
    by (auto simp: format_providers_entry_def split: sum.splits)
  from assms(2) consider "kind = ''flatrate''" | "kind = ''rent''" | "kind = ''buy''" by auto
  then show ?thesis
  proof cases
    case 1
    with names_result[OF n(1)] show ?thesis by (simp add: e dict_get_def)
  next
    case 2
    with names_result[OF n(2)] show ?thesis by (simp add: e dict_get_def)
  next
    case 3
    with names_result[OF n(3)] show ?thesis by (simp add: e dict_get_def)
  qed
qed

lemma raw_offers_formatted: "format_providers_entry ''US'' raw_offers = Inr stored_offers"
  by (simp add: format_providers_entry_def names_def dict_get_default_def dict_get_def
      raw_offers_def stored_offers_def)

text \<open>
  C1, as amended. Each of the three kind lists of an entry that \<open>format_providers_entry\<close>
  builds holds the \<open>provider_name\<close> of those elements of the raw list that are dictionaries
  with a true name, in the order of the raw list and with repeats kept. Both writers store the
  entry as it is: a record they touch holds it under the region. Nothing is sorted or
  deduplicated on the way in; the sorted list without repeats comes about when the stored
  entry is read back through \<open>providers_to_list\<close>.
\<close>

theorem persisted_offers_raw_order:
  assumes "format_providers_entry tmdb_region p = Inr e"
  shows "(\<forall>kind \<in> set [''flatrate'', ''rent'', ''buy''].
            \<exists>xs. py_iter (dict_get_default p kind (PList [])) = Inr xs
              \<and> dict_get e kind = PList (concat (map named xs)))
    \<and> (\<forall>d' \<in> set (update_movie_with_tmdb tmdb_region coll mongo_id tid e).
            d' \<in> set coll \<or> tmdb_providers d' tmdb_region = Some e)
    \<and> (\<forall>d' \<in> set (update_by_tmdb_id tmdb_region coll tid e).
            d' \<in> set coll \<or> tmdb_providers d' tmdb_region = Some e)
    \<and> sorted (providers_to_list other (PDict e))
    \<and> distinct (providers_to_list other (PDict e))"
proof -
  have a: "\<forall>kind \<in> set [''flatrate'', ''rent'', ''buy''].
            \<exists>xs. py_iter (dict_get_default p kind (PList [])) = Inr xs
              \<and> dict_get e kind = PList (concat (map named xs))"
    using format_providers_entry_lists[OF assms] by blast
  have b: "d' \<in> set coll \<or> tmdb_providers d' tmdb_region = Some e"
    if "d' \<in> set (update_movie_with_tmdb tmdb_region coll mongo_id tid e)" for d'
    using update_one_cases[OF that[unfolded update_movie_with_tmdb_def]] by auto
  have c: "d' \<in> set coll \<or> tmdb_providers d' tmdb_region = Some e"
    if "d' \<in> set (update_by_tmdb_id tmdb_region coll tid e)" for d'
    using update_many_cases[OF that[unfolded update_by_tmdb_id_def]] by auto
  have d: "sorted (providers_to_list other (PDict e))"
    "distinct (providers_to_list other (PDict e))"
    by (simp_all add: providers_to_list_names sorted_finish_names distinct_finish_names)
  from a b c d show ?thesis by blast
qed

theorem persisted_offers_raw_order_witness:
  "format_providers_entry ''US'' raw_offers = Inr stored_offers
   \<and> (\<exists>xs. py_iter (dict_get_default raw_offers ''flatrate'' (PList [])) = Inr xs
         \<and> dict_get stored_offers ''flatrate'' = PList (concat (map named xs)))
   \<and> tmdb_providers (hd (update_movie_with_tmdb ''US'' [fight_club] 1 550 stored_offers)) ''US''
        = Some stored_offers
   \<and> sorted (providers_to_list no_other (PDict stored_offers))"
proof -
  let ?new = "update_movie_with_tmdb ''US'' [fight_club] 1 550 stored_offers"
  have k: "''flatrate'' \<in> set [''flatrate'', ''rent'', ''buy'']" by simp
  have m: "hd ?new \<in> set ?new"
    by (simp add: update_movie_with_tmdb_def fight_club_def)
  have n: "hd ?new \<notin> set [fight_club]"
    by (simp add: update_movie_with_tmdb_def fight_club_def)
  from persisted_offers_raw_order[OF raw_offers_formatted, of "[fight_club]" 1 550 no_other]
    k m n raw_offers_formatted
  show ?thesis by blast
qed

text \<open>
  C1 as it is stated fails on an answer that lists Netflix, Apple TV and Netflix again: the
  entry is built without error, the writer stores it, and its subscription list is neither
  ordered nor free of repeats.
\<close>

theorem persisted_offers_not_canonical:
  "format_providers_entry ''US'' raw_offers = Inr stored_offers
   \<and> tmdb_providers (hd (update_movie_with_tmdb ''US'' [fight_club] 1 550 stored_offers)) ''US''
        = Some stored_offers
   \<and> \<not> canonical (dict_get stored_offers ''flatrate'')"
  by (simp add: format_providers_entry_def names_def dict_get_default_def dict_get_def
      raw_offers_def stored_offers_def update_movie_with_tmdb_def fight_club_def canonical_def)

section \<open>The two title lookups\<close>

text \<open>
  C9. For the title Fight.Club the two lookups ask the store for different things:
  \<open>find_film\<close> escapes the dot, \<open>show_fight_club_row\<close> hands it over as the pattern
  character it is.
\<close>

theorem lookup_patterns_differ:
  "q_regex (show_fight_club_row_query ''Fight.Club'' 1999) = ''^Fight.Club$''
   \<and> q_regex (find_film_query ''Fight.Club'' 1999) = ''^Fight'' @ [CHR 0x5C] @ ''.Club$''"
  by (simp add: show_fight_club_row_query_def find_film_query_def re_escape_def re_special_def)

end
